theory Spec2Isabelle
  imports Main "HOL-Library.Multiset"
begin

section \<open>OpenCV matrices over an explicit store\<close>

text \<open>
  \<^verbatim>\<open>cv::Mat\<close> is a header (rows, cols, pointer to a pixel buffer) and the buffer it
  points to. Assigning a \<^verbatim>\<open>Mat\<close> copies the header and shares the buffer;
  \<^verbatim>\<open>copyTo\<close> and \<^verbatim>\<open>Mat_<float>::eye\<close> allocate a buffer of their own. The store is
  the list of all buffers allocated so far, an address is an index into it, and a new
  buffer is appended at address \<open>length h\<close>. Buffers are row-major. The element type
  (\<^verbatim>\<open>float\<close> in \<^verbatim>\<open>Mat_<float>\<close>) is a parameter \<open>'a\<close>: the functions of the header do no
  arithmetic on elements, they only write the constants 0 and 1 and copy.
\<close>

type_synonym addr = nat

type_synonym 'a store = "'a list list"

record Mat =
  rows :: nat
  cols :: nat
  data :: "addr option"

definition Mat_default :: Mat where
  \<comment> \<open>\<^verbatim>\<open>Mat()\<close>: no buffer, no extent\<close>
  "Mat_default = \<lparr>rows = 0, cols = 0, data = None\<rparr>"

definition Mat_empty :: "Mat \<Rightarrow> bool" where
  \<comment> \<open>\<^verbatim>\<open>Mat::empty()\<close>: \<^verbatim>\<open>data == 0 || total() == 0\<close>\<close>
  "Mat_empty m = (data m = None \<or> rows m * cols m = 0)"

definition Mat_release :: "Mat \<Rightarrow> Mat" where
  \<comment> \<open>\<^verbatim>\<open>Mat::release()\<close>: drops the reference to the buffer and zeroes the row count\<close>
  "Mat_release m = m\<lparr>rows := 0, data := None\<rparr>"

definition alloc :: "'a store \<Rightarrow> 'a list \<Rightarrow> addr \<times> 'a store" where
  "alloc h buf = (length h, h @ [buf])"

definition eye_data :: "nat \<Rightarrow> nat \<Rightarrow> ('a::{zero,one}) list" where
  "eye_data r c = concat (map (\<lambda>i. map (\<lambda>j. if i = j then 1 else 0) [0..<c]) [0..<r])"

definition Mat_eye :: "nat \<Rightarrow> nat \<Rightarrow> ('a::{zero,one}) store \<Rightarrow> Mat \<times> 'a store" where
  \<comment> \<open>\<^verbatim>\<open>Mat_<float>::eye(r, c)\<close> converted to a \<^verbatim>\<open>Mat_<float>\<close>: a new buffer\<close>
  "Mat_eye r c h = (let (a, h') = alloc h (eye_data r c)
                    in (\<lparr>rows = r, cols = c, data = Some a\<rparr>, h'))"

definition Mat_create :: "nat \<Rightarrow> nat \<Rightarrow> Mat \<Rightarrow> 'a store \<Rightarrow> 'a list \<Rightarrow> Mat \<times> 'a store" where
  \<comment> \<open>\<^verbatim>\<open>Mat::create(r, c, type)\<close> followed by the write of the contents \<open>buf\<close>: the
      destination's buffer is reused when it already has the extent, else a new one is
      allocated\<close>
  "Mat_create r c dst h buf =
     (case data dst of
        Some b \<Rightarrow>
          if rows dst = r \<and> cols dst = c then (dst, h[b := buf])
          else (let (a, h') = alloc h buf in (\<lparr>rows = r, cols = c, data = Some a\<rparr>, h'))
      | None \<Rightarrow> (let (a, h') = alloc h buf in (\<lparr>rows = r, cols = c, data = Some a\<rparr>, h')))"

definition Mat_copyTo :: "Mat \<Rightarrow> Mat \<Rightarrow> 'a store \<Rightarrow> Mat \<times> 'a store" where
  \<comment> \<open>\<^verbatim>\<open>src.copyTo(dst)\<close>: an empty source releases the destination\<close>
  "Mat_copyTo src dst h =
     (case data src of
        None \<Rightarrow> (Mat_release dst, h)
      | Some a \<Rightarrow>
          if rows src * cols src = 0 then (Mat_release dst, h)
          else Mat_create (rows src) (cols src) dst h (h ! a))"

definition Mat_valid :: "'a store \<Rightarrow> Mat \<Rightarrow> bool" where
  \<comment> \<open>the header points into the store, at a buffer of its extent\<close>
  "Mat_valid h m =
     (case data m of None \<Rightarrow> True
      | Some a \<Rightarrow> a < length h \<and> length (h ! a) = rows m * cols m)"

definition Mat_contents :: "'a store \<Rightarrow> Mat \<Rightarrow> 'a list" where
  \<comment> \<open>what a reader of the matrix sees\<close>
  "Mat_contents h m = (case data m of None \<Rightarrow> [] | Some a \<Rightarrow> h ! a)"

definition Mat_write :: "'a store \<Rightarrow> Mat \<Rightarrow> nat \<Rightarrow> nat \<Rightarrow> 'a \<Rightarrow> 'a store" where
  \<comment> \<open>\<^verbatim>\<open>m(i, j) = v\<close>, an in-place write through the header; a header with no buffer or
      an index outside the extent (undefined behaviour in C++) writes nothing\<close>
  "Mat_write h m i j v =
     (case data m of
        None \<Rightarrow> h
      | Some a \<Rightarrow>
          if i < rows m \<and> j < cols m then h[a := (h ! a)[i * cols m + j := v]] else h)"

section \<open>The planar tracker\<close>

text \<open>
  The fields of class \<^verbatim>\<open>Tracker\<close>, in the order of the header. \<^verbatim>\<open>KeyPoint\<close> and
  \<^verbatim>\<open>Point2f\<close> are OpenCV's, taken as the type parameters \<open>'kp\<close> and \<open>'pt\<close>. The
  detector and the extractor are stateless capabilities (parameters of the functions
  that use them); of the matcher the record keeps what it is trained on.
\<close>

record ('kp, 'pt) Tracker =
  matcher :: "Mat list"
  marker_frame :: Mat
  marker_desc :: Mat
  marker_kp :: "'kp list"
  obj_bb :: "'pt list"
  bootstrap :: bool
  camMat :: Mat
  trackedFeatures :: "'kp list"
  trackedFeaturesOnMarker :: "nat list"
  prevGray :: Mat
  toProcessFrame :: Mat
  raux :: Mat
  taux :: Mat
  homography :: Mat
  cvToGl :: Mat
  tracking :: bool
  debug :: bool
  newFrame :: bool
  outputFrame :: Mat
  hmask :: Mat
  modelViewMatrix :: Mat

definition lock :: "('kp, 'pt) Tracker \<Rightarrow> ('kp, 'pt) Tracker" where
  \<comment> \<open>\<^verbatim>\<open>ofThread::lock()\<close>: the mutex belongs to the base class; taken by a single
      caller it leaves the fields of the tracker as they are\<close>
  "lock s = s"

definition unlock :: "('kp, 'pt) Tracker \<Rightarrow> ('kp, 'pt) Tracker" where
  "unlock s = s"

definition isTracking :: "('kp, 'pt) Tracker \<Rightarrow> bool" where
  "isTracking s = (tracking s \<or> bootstrap s)"

definition setDebug :: "bool \<Rightarrow> ('kp, 'pt) Tracker \<Rightarrow> ('kp, 'pt) Tracker" where
  "setDebug b s = s\<lparr>debug := b\<rparr>"

definition setToProcessFrame :: "Mat \<Rightarrow> ('kp, 'pt) Tracker \<Rightarrow> ('kp, 'pt) Tracker" where
  "setToProcessFrame f s = (unlock ((lock s)\<lparr>toProcessFrame := f\<rparr>))\<lparr>newFrame := True\<rparr>"

definition getModelViewMatrix ::
  "('a::{zero,one}) store \<Rightarrow> ('kp, 'pt) Tracker \<Rightarrow> Mat \<times> ('kp, 'pt) Tracker \<times> 'a store" where
  "getModelViewMatrix h s =
     (if Mat_empty (modelViewMatrix s) then
        (let (m, h') = Mat_eye 4 4 h in (m, s, h'))
      else
        (let tmp = Mat_default;
             s1 = lock s;
             (tmp', h') = Mat_copyTo (modelViewMatrix s1) tmp h;
             s2 = unlock s1
         in (tmp', s2, h')))"

definition reset :: "('kp, 'pt) Tracker \<Rightarrow> ('kp, 'pt) Tracker" where
  "reset s =
     s\<lparr>trackedFeatures := [],
       trackedFeaturesOnMarker := [],
       tracking := True,
       bootstrap := True,
       raux := Mat_release (raux s),
       taux := Mat_release (taux s)\<rparr>"


section \<open>The operations of the tracker whose bodies are not in the header\<close>

text \<open>
  The header declares \<^verbatim>\<open>setMarker\<close>, \<^verbatim>\<open>bootstrapTracking\<close>, \<^verbatim>\<open>track\<close>, \<^verbatim>\<open>process\<close>,
  \<^verbatim>\<open>canCalcModelViewMatrix\<close> and \<^verbatim>\<open>calcModelViewMatrix\<close> and defines none of them.
  They are modelled from section 4.1 of the specification. What OpenCV computes
  (keypoints, descriptors, matches, the robust homography, optical flow, the pose
  solver) is a field of \<open>Backend\<close>; the thresholds, whose values the specification
  gives only by example, are the fields of \<open>Thresholds\<close>.
\<close>

record ('kp, 'pt) Backend =
  detect :: "Mat \<Rightarrow> Mat \<Rightarrow> 'kp list"
  compute :: "Mat \<Rightarrow> 'kp list \<Rightarrow> Mat"
  corners :: "Mat \<Rightarrow> 'pt list"
  matchMarker :: "Mat list \<Rightarrow> Mat \<Rightarrow> 'kp list \<Rightarrow> ('kp \<times> nat) list"
  findHomography :: "'kp list \<Rightarrow> ('kp \<times> nat) list \<Rightarrow> Mat \<Rightarrow> Mat \<times> bool list"
  opticalFlow :: "Mat \<Rightarrow> Mat \<Rightarrow> 'kp list \<Rightarrow> ('kp \<times> bool) list"
  inBounds :: "Mat \<Rightarrow> 'kp \<Rightarrow> bool"
  solvePose :: "Mat \<Rightarrow> Mat \<Rightarrow> Mat \<Rightarrow> 'kp list \<Rightarrow> 'kp list \<Rightarrow> (Mat \<times> Mat \<times> Mat) option"

record Thresholds =
  minMarkerKeypoints :: nat
  minInliers :: nat
  minTracked :: nat
  minCorrespondences :: nat

datatype error = InsufficientFeatures

datatype TrackingState = Idle | Bootstrapping | Tracking

definition trackingState :: "('kp, 'pt) Tracker \<Rightarrow> TrackingState" where
  \<comment> \<open>Modelled from the spec: the specification's \<open>TrackingState\<close> is not a type of the
      header, which keeps the two flags \<^verbatim>\<open>bootstrap\<close> and \<^verbatim>\<open>tracking\<close>; the state is read
      off the flags, the bootstrap flag first, as \<^verbatim>\<open>reset\<close> sets both to force
      Bootstrapping.\<close>
  "trackingState s =
     (if bootstrap s then Bootstrapping else if tracking s then Tracking else Idle)"

definition select :: "bool list \<Rightarrow> 'x list \<Rightarrow> 'x list" where
  \<comment> \<open>the entries of a vector at the positions a mask keeps\<close>
  "select msk xs = map snd (filter fst (zip msk xs))"

definition setMarker ::
  "('kp, 'pt) Backend \<Rightarrow> Thresholds \<Rightarrow> Mat \<Rightarrow> ('kp, 'pt) Tracker
     \<Rightarrow> (error + unit) \<times> ('kp, 'pt) Tracker" where
  \<comment> \<open>Modelled from the spec: the body of \<^verbatim>\<open>Tracker::setMarker\<close> is missing. "Detects
      keypoints/descriptors on the marker image, stores them, computes the marker's
      bounding quadrilateral. Fails (returns an error code) if fewer than a minimum
      number of keypoints are found"; "no matcher/state is partially mutated". The
      header's \<^verbatim>\<open>int\<close> result is the sum: the values of the codes are not given.\<close>
  "setMarker B T marker s =
     (let kp = detect B marker Mat_default in
      if length kp < minMarkerKeypoints T then (Inl InsufficientFeatures, s)
      else
        (let desc = compute B marker kp in
         (Inr (),
          s\<lparr>matcher := [desc],
            marker_frame := marker,
            marker_desc := desc,
            marker_kp := kp,
            obj_bb := corners B marker\<rparr>)))"

definition bootstrapTracking ::
  "('kp, 'pt) Backend \<Rightarrow> Thresholds \<Rightarrow> Mat \<Rightarrow> Mat \<Rightarrow> Mat \<Rightarrow> ('kp, 'pt) Tracker
     \<Rightarrow> ('kp, 'pt) Tracker" where
  \<comment> \<open>Modelled from the spec: the body of \<^verbatim>\<open>Tracker::bootstrapTracking\<close> is missing.
      "Matches current frame descriptors against the marker descriptors, estimates a
      homography via a robust estimator, and keeps only matches consistent with that
      homography (inlier mask). If inlier count \<ge> a minimum threshold, transitions to
      Tracking; otherwise remains Bootstrapping". A match is a keypoint of the frame
      with the index of the marker keypoint it is linked to (the specification's
      TrackedFeature); the kept matches fill the two vectors.\<close>
  "bootstrapTracking B T frame useHomography msk s =
     (let ms = matchMarker B (matcher s) frame (detect B frame msk);
          (H, inliers) = findHomography B (marker_kp s) ms useHomography;
          s1 = s\<lparr>homography := H,
                 trackedFeatures := select inliers (map fst ms),
                 trackedFeaturesOnMarker := select inliers (map snd ms),
                 prevGray := frame\<rparr>
      in if minInliers T \<le> length (trackedFeatures s1)
         then s1\<lparr>bootstrap := False, tracking := True\<rparr>
         else s1)"

definition keepMask :: "('kp, 'pt) Backend \<Rightarrow> Mat \<Rightarrow> ('kp, 'pt) Tracker \<Rightarrow> bool list" where
  \<comment> \<open>Modelled from the spec: a feature is kept when its flow is confident enough (the
      flag optical flow returns with each advanced position) and its new position is
      inside the image.\<close>
  "keepMask B frame s =
     map (\<lambda>(p, ok). ok \<and> inBounds B frame p)
       (opticalFlow B (prevGray s) frame (trackedFeatures s))"

definition dropLost ::
  "('kp, 'pt) Backend \<Rightarrow> Mat \<Rightarrow> ('kp, 'pt) Tracker \<Rightarrow> ('kp, 'pt) Tracker" where
  \<comment> \<open>Modelled from the spec: the first half of \<^verbatim>\<open>Tracker::track\<close>, whose body is
      missing. "Advances each TrackedFeature's 2D position from the previous frame into
      the current frame using sparse optical flow; drops features whose flow confidence
      falls below a threshold or whose position leaves the image bounds, along with the
      same-index linkage entry."\<close>
  "dropLost B frame s =
     (let advanced = map fst (opticalFlow B (prevGray s) frame (trackedFeatures s));
          keep = keepMask B frame s
      in s\<lparr>trackedFeatures := select keep advanced,
           trackedFeaturesOnMarker := select keep (trackedFeaturesOnMarker s),
           prevGray := frame\<rparr>)"

definition track ::
  "('kp, 'pt) Backend \<Rightarrow> Thresholds \<Rightarrow> Mat \<Rightarrow> ('kp, 'pt) Tracker \<Rightarrow> ('kp, 'pt) Tracker" where
  \<comment> \<open>Modelled from the spec: the second half of \<^verbatim>\<open>Tracker::track\<close>. "If resulting
      feature count falls below the minimum (tracking-lost threshold), resets to
      Bootstrapping state": the reset is the header's \<^verbatim>\<open>reset()\<close>.\<close>
  "track B T frame s =
     (let s1 = dropLost B frame s
      in if length (trackedFeatures s1) < minTracked T then reset s1 else s1)"

definition canCalcModelViewMatrix :: "Thresholds \<Rightarrow> ('kp, 'pt) Tracker \<Rightarrow> bool" where
  \<comment> \<open>Modelled from the spec: "true iff the current correspondence count meets the
      solver's minimum".\<close>
  "canCalcModelViewMatrix T s = (minCorrespondences T \<le> length (trackedFeatures s))"

definition calcModelViewMatrix ::
  "('kp, 'pt) Backend \<Rightarrow> ('kp, 'pt) Tracker \<Rightarrow> ('kp, 'pt) Tracker" where
  \<comment> \<open>Modelled from the spec: the body of \<^verbatim>\<open>Tracker::calcModelViewMatrix\<close> is missing.
      The solver is seeded with \<^verbatim>\<open>raux\<close> and \<^verbatim>\<open>taux\<close>; "fails silently (matrix left
      stale) if the solver does not converge".\<close>
  "calcModelViewMatrix B s =
     (case solvePose B (camMat s) (raux s) (taux s) (trackedFeatures s)
             (map (\<lambda>i. marker_kp s ! i) (filter (\<lambda>i. i < length (marker_kp s)) (trackedFeaturesOnMarker s))) of
        None \<Rightarrow> s
      | Some (r, t, mv) \<Rightarrow> s\<lparr>raux := r, taux := t, modelViewMatrix := mv\<rparr>)"

definition process ::
  "('kp, 'pt) Backend \<Rightarrow> Thresholds \<Rightarrow> Mat \<Rightarrow> Mat \<Rightarrow> ('kp, 'pt) Tracker \<Rightarrow> ('kp, 'pt) Tracker" where
  \<comment> \<open>Modelled from the spec: the body of \<^verbatim>\<open>Tracker::process\<close> is missing. "Dispatches
      to bootstrap or track based on current state, then (if enough correspondences
      exist) computes the pose." Nothing is dispatched in Idle. The image the header's \<^verbatim>\<open>process\<close> returns is not
      described and is left out.\<close>
  "process B T frame msk s =
     (let s1 = (case trackingState s of
                  Bootstrapping \<Rightarrow> bootstrapTracking B T frame Mat_default msk s
                | Tracking \<Rightarrow> track B T frame s
                | Idle \<Rightarrow> s)
      in if canCalcModelViewMatrix T s1 then calcModelViewMatrix B s1 else s1)"

definition flow_contract :: "('kp, 'pt) Backend \<Rightarrow> bool" where
  \<comment> \<open>OpenCV's sparse optical flow answers with one entry for each point it is given\<close>
  "flow_contract B = (\<forall>prev cur fs. length (opticalFlow B prev cur fs) = length fs)"

definition same_length :: "('kp, 'pt) Tracker \<Rightarrow> bool" where
  \<comment> \<open>the invariant of the two parallel vectors\<close>
  "same_length s = (length (trackedFeatures s) = length (trackedFeaturesOnMarker s))"

text \<open>
  The states a tracker can be in. Modelled from the spec: the constructor is declared
  in the header without a body; a new tracker has no tracked feature, so both vectors
  are empty (C++ default-constructs them, and they are private), whatever the other
  fields hold. Then any of its public functions is called, each time with whatever the
  backend answers, or its public fields are assigned.
\<close>

inductive reachable :: "Thresholds \<Rightarrow> ('kp, 'pt) Tracker \<Rightarrow> bool" for T :: Thresholds where
  constructed: "trackedFeatures s = [] \<Longrightarrow> trackedFeaturesOnMarker s = [] \<Longrightarrow> reachable T s"
| after_setMarker: "reachable T s \<Longrightarrow> reachable T (snd (setMarker B T marker s))"
| after_bootstrapTracking:
    "reachable T s \<Longrightarrow> reachable T (bootstrapTracking B T frame useHomography msk s)"
| after_track: "reachable T s \<Longrightarrow> flow_contract B \<Longrightarrow> reachable T (track B T frame s)"
| after_process: "reachable T s \<Longrightarrow> flow_contract B \<Longrightarrow> reachable T (process B T frame msk s)"
| after_calcModelViewMatrix: "reachable T s \<Longrightarrow> reachable T (calcModelViewMatrix B s)"
| after_reset: "reachable T s \<Longrightarrow> reachable T (reset s)"
| after_setDebug: "reachable T s \<Longrightarrow> reachable T (setDebug b s)"
| after_setToProcessFrame: "reachable T s \<Longrightarrow> reachable T (setToProcessFrame f s)"
| after_public_write:
    "reachable T s \<Longrightarrow> reachable T (s\<lparr>outputFrame := f, hmask := m, modelViewMatrix := mv\<rparr>)"


section \<open>The marker detector\<close>

text \<open>
  Of class \<^verbatim>\<open>MarkerDetector\<close> the record keeps the fields that hold data; the OpenCV
  objects (trainer, extractor, matcher, PCA, k-nearest classifier) are capabilities and
  enter as parameters. \<^verbatim>\<open>training\<close> is a \<^verbatim>\<open>Mat\<close> with one row per training image:
  the model keeps the list of its rows, an encoding \<open>'e\<close> each. The header defines the
  accessors below.
\<close>

record 'e MarkerDetector =
  vocabulary :: Mat
  markers :: "Mat list"
  marker_files :: "string list"
  training :: "'e list"
  training_labels :: "string list"
  training_labelsUniq :: "string list"

definition getTraining :: "'e MarkerDetector \<Rightarrow> 'e list" where
  "getTraining md = training md"

definition setTraining :: "'e list \<Rightarrow> 'e MarkerDetector \<Rightarrow> 'e MarkerDetector" where
  "setTraining tr md = md\<lparr>training := tr\<rparr>"

definition getTrainingLabels :: "'e MarkerDetector \<Rightarrow> string list" where
  "getTrainingLabels md = training_labels md"

definition setTrainingLabels :: "string list \<Rightarrow> 'e MarkerDetector \<Rightarrow> 'e MarkerDetector" where
  "setTrainingLabels trainingLabels md = md\<lparr>training_labels := trainingLabels\<rparr>"

definition trainingSet :: "'e MarkerDetector \<Rightarrow> ('e \<times> string) list" where
  \<comment> \<open>Modelled from the spec: the TrainingSet, an "ordered list of (encoded histogram,
      label) pairs", read off the two parallel fields of the header.\<close>
  "trainingSet md = zip (training md) (training_labels md)"

definition ranked :: "('e \<Rightarrow> 'e \<Rightarrow> 'd::linorder) \<Rightarrow> 'e \<Rightarrow> ('e \<times> string) list
    \<Rightarrow> ('e \<times> string) list" where
  \<comment> \<open>Modelled from the spec: "finds the nearest training encoding(s) by a distance
      metric": the training pairs by distance to the query, nearest first, equal
      distances in training order.\<close>
  "ranked dist q ts = sort_key (\<lambda>(e, l). dist q e) ts"

definition kNearest :: "('e \<Rightarrow> 'e \<Rightarrow> 'd::linorder) \<Rightarrow> 'e \<Rightarrow> nat \<Rightarrow> ('e \<times> string) list
    \<Rightarrow> ('e \<times> string) list" where
  \<comment> \<open>Modelled from the spec: the neighbours that vote in the "k-nearest-neighbor
      vote", the first \<open>k\<close> of the ranking.\<close>
  "kNearest dist q k ts = take k (ranked dist q ts)"

fun majority :: "string list \<Rightarrow> string" where
  \<comment> \<open>Modelled from the spec: the "majority label" of a vote: a label with the most
      votes, the one that comes first among equals; no votes give the empty label.\<close>
  "majority [] = []"
| "majority (l # ls) =
     fold (\<lambda>c best. if count_list (l # ls) best < count_list (l # ls) c then c else best) ls l"

definition detectMarkerInImage ::
  "(Mat \<Rightarrow> Mat \<Rightarrow> 'e) \<Rightarrow> ('e \<Rightarrow> 'e \<Rightarrow> 'd::linorder) \<Rightarrow> 'd \<Rightarrow> nat \<Rightarrow> 'e MarkerDetector
     \<Rightarrow> Mat \<Rightarrow> Mat \<Rightarrow> string" where
  \<comment> \<open>Modelled from the spec: the body of \<^verbatim>\<open>MarkerDetector::detectMarkerInImage\<close> is
      missing. "Encodes the query image identically, finds the nearest training
      encoding(s) by a distance metric (k-nearest-neighbor vote), and returns the
      majority label. Returns an empty/sentinel label if the nearest-neighbor distance
      exceeds a rejection threshold or if the TrainingSet is empty." \<open>enc\<close> is the
      encoding of an image (\<^verbatim>\<open>extractBOWdescriptor\<close> and the PCA projection), \<open>dist\<close>
      the metric, \<open>thr\<close> the rejection threshold, \<open>k\<close> the number of neighbours.\<close>
  "detectMarkerInImage enc dist thr k md img msk =
     (let q = enc img msk in
      case ranked dist q (trainingSet md) of
        [] \<Rightarrow> []
      | (e, l) # rest \<Rightarrow>
          if thr < dist q e then []
          else majority (map snd (kNearest dist q k (trainingSet md))))"

section \<open>Concrete trackers, backends and detectors\<close>

definition blank_tracker :: "(nat, nat) Tracker" where
  "blank_tracker =
     \<lparr>matcher = [], marker_frame = Mat_default, marker_desc = Mat_default, marker_kp = [],
      obj_bb = [], bootstrap = False, camMat = Mat_default, trackedFeatures = [],
      trackedFeaturesOnMarker = [], prevGray = Mat_default, toProcessFrame = Mat_default,
      raux = Mat_default, taux = Mat_default, homography = Mat_default,
      cvToGl = Mat_default, tracking = False, debug = False, newFrame = False,
      outputFrame = Mat_default, hmask = Mat_default, modelViewMatrix = Mat_default\<rparr>"

definition posed_tracker :: "(nat, nat) Tracker" where
  \<comment> \<open>a tracker in the Tracking state with a 4x4 pose stored at address 0 and seeds at
      addresses 1 and 2\<close>
  "posed_tracker =
     blank_tracker\<lparr>tracking := True, trackedFeatures := [0, 1, 2, 3, 4],
       trackedFeaturesOnMarker := [0, 1, 2, 3, 4],
       raux := \<lparr>rows = 3, cols = 1, data = Some 1\<rparr>,
       taux := \<lparr>rows = 3, cols = 1, data = Some 2\<rparr>,
       modelViewMatrix := \<lparr>rows = 4, cols = 4, data = Some 0\<rparr>\<rparr>"

definition posed_store :: "int store" where
  "posed_store = [[1,0,0,5, 0,1,0,6, 0,0,1,7, 0,0,0,1], [0,0,0], [5,6,7]]"

definition small_pose_tracker :: "(nat, nat) Tracker" where
  \<comment> \<open>the public field \<^verbatim>\<open>modelViewMatrix\<close> assigned a 2x2 matrix\<close>
  "small_pose_tracker = blank_tracker\<lparr>modelViewMatrix := \<lparr>rows = 2, cols = 2, data = Some 0\<rparr>\<rparr>"

definition small_pose_store :: "int store" where
  "small_pose_store = [[1, 2, 3, 4]]"

definition example_backend :: "(nat, nat) Backend" where
  \<comment> \<open>keypoints are numbers: an image of \<open>r\<close> rows has the keypoints \<open>0..<r\<close>, every
      keypoint matches the marker keypoint of its number, the homography rejects
      keypoint 1, optical flow moves each keypoint by 10 and loses keypoint 2\<close>
  "example_backend =
     \<lparr>detect = (\<lambda>img msk. [0..<rows img]),
      compute = (\<lambda>img kp. img),
      corners = (\<lambda>img. [0, cols img]),
      matchMarker = (\<lambda>trained frame kps. map (\<lambda>p. (p, p)) kps),
      findHomography = (\<lambda>mkp ms H. (H, map (\<lambda>(p, i). p \<noteq> 1) ms)),
      opticalFlow = (\<lambda>prev cur fs. map (\<lambda>p. (p + 10, p \<noteq> 2)) fs),
      inBounds = (\<lambda>img p. p < 10 + rows img),
      solvePose = (\<lambda>cam r t pts obj. None)\<rparr>"

definition example_thresholds :: Thresholds where
  "example_thresholds =
     \<lparr>minMarkerKeypoints = 3, minInliers = 4, minTracked = 4, minCorrespondences = 4\<rparr>"

definition example_frame :: Mat where
  "example_frame = \<lparr>rows = 5, cols = 5, data = Some 0\<rparr>"

definition small_frame :: Mat where
  "small_frame = \<lparr>rows = 2, cols = 2, data = Some 0\<rparr>"

definition example_bootstrapped :: "(nat, nat) Tracker" where
  \<comment> \<open>a marker is set on a blank tracker and found in the next frame\<close>
  "example_bootstrapped =
     bootstrapTracking example_backend example_thresholds example_frame Mat_default Mat_default
       (snd (setMarker example_backend example_thresholds example_frame blank_tracker))"

definition example_detector :: "int MarkerDetector" where
  \<comment> \<open>encodings are integers; three training images of marker a and two of marker b\<close>
  "example_detector =
     setTrainingLabels [''a'', ''b'', ''a'', ''b'', ''a'']
       (setTraining [10, 12, 14, 40, 11]
          \<lparr>vocabulary = Mat_default, markers = [], marker_files = [], training = [],
           training_labels = [], training_labelsUniq = []\<rparr>)"

definition far_frame :: Mat where
  "far_frame = \<lparr>rows = 100, cols = 5, data = Some 0\<rparr>"

definition untrained_detector :: "int MarkerDetector" where
  "untrained_detector =
     \<lparr>vocabulary = Mat_default, markers = [], marker_files = [], training = [],
      training_labels = [], training_labelsUniq = []\<rparr>"

definition example_enc :: "Mat \<Rightarrow> Mat \<Rightarrow> int" where
  "example_enc img msk = int (rows img)"

definition example_dist :: "int \<Rightarrow> int \<Rightarrow> int" where
  "example_dist x y = \<bar>x - y\<bar>"


section \<open>Vectors kept in step\<close>

lemma select_Nil [simp]: "select [] xs = []" "select m [] = []"
  by (simp_all add: select_def)

lemma select_Cons [simp]:
  "select (b # m) (x # xs) = (if b then x # select m xs else select m xs)"
  by (simp add: select_def)

lemma length_select_cong:
  "length xs = length ys \<Longrightarrow> length (select m xs) = length (select m ys)"
proof (induction m arbitrary: xs ys)
  case Nil
  then show ?case by simp
next
  case (Cons b m)
  show ?case
  proof (cases xs)
    case Nil
    with Cons.prems show ?thesis by simp
  next
    case (Cons x xs')
    then obtain y ys' where "ys = y # ys'" "length xs' = length ys'"
      using Cons.prems by (cases ys) auto
    with Cons Cons.IH [of xs' ys'] show ?thesis by simp
  qed
qed

lemma zip_select:
  "length xs = length ys \<Longrightarrow> zip (select m xs) (select m ys) = select m (zip xs ys)"
proof (induction m arbitrary: xs ys)
  case Nil
  then show ?case by simp
next
  case (Cons b m)
  show ?case
  proof (cases xs)
    case Nil
    with Cons.prems show ?thesis by simp
  next
    case (Cons x xs')
    then obtain y ys' where "ys = y # ys'" "length xs' = length ys'"
      using Cons.prems by (cases ys) auto
    with Cons Cons.IH [of xs' ys'] show ?thesis by simp
  qed
qed

lemma setMarker_vectors:
  "trackedFeatures (snd (setMarker B T marker s)) = trackedFeatures s"
  "trackedFeaturesOnMarker (snd (setMarker B T marker s)) = trackedFeaturesOnMarker s"
  by (simp_all add: setMarker_def Let_def)

lemma bootstrapTracking_same_length: "same_length (bootstrapTracking B T frame H msk s)"
proof -
  define ms where "ms = matchMarker B (matcher s) frame (detect B frame msk)"
  obtain H' inliers where est: "findHomography B (marker_kp s) ms H = (H', inliers)"
    by (cases "findHomography B (marker_kp s) ms H")
  have "length (select inliers (map fst ms)) = length (select inliers (map snd ms))"
    by (rule length_select_cong) simp
  then show ?thesis
    using est by (simp add: same_length_def bootstrapTracking_def Let_def ms_def)
qed

lemma dropLost_vectors:
  "trackedFeatures (dropLost B frame s) =
     select (keepMask B frame s) (map fst (opticalFlow B (prevGray s) frame (trackedFeatures s)))"
  "trackedFeaturesOnMarker (dropLost B frame s) =
     select (keepMask B frame s) (trackedFeaturesOnMarker s)"
  by (simp_all add: dropLost_def Let_def)

lemma dropLost_same_length:
  assumes "flow_contract B" and "same_length s"
  shows "same_length (dropLost B frame s)"
proof -
  have "length (map fst (opticalFlow B (prevGray s) frame (trackedFeatures s)))
          = length (trackedFeaturesOnMarker s)"
    using assms by (simp add: flow_contract_def same_length_def)
  then show ?thesis
    unfolding same_length_def dropLost_vectors by (rule length_select_cong)
qed

lemma reset_same_length: "same_length (reset s)"
  by (simp add: same_length_def reset_def)

lemma track_same_length:
  "flow_contract B \<Longrightarrow> same_length s \<Longrightarrow> same_length (track B T frame s)"
  by (simp add: track_def Let_def reset_same_length dropLost_same_length)

lemma calcModelViewMatrix_same_length:
  "same_length s \<Longrightarrow> same_length (calcModelViewMatrix B s)"
  by (simp add: calcModelViewMatrix_def same_length_def split: option.splits)

lemma process_same_length:
  assumes "flow_contract B" and "same_length s"
  shows "same_length (process B T frame msk s)"
proof -
  define s1 where "s1 = (case trackingState s of
      Bootstrapping \<Rightarrow> bootstrapTracking B T frame Mat_default msk s
    | Tracking \<Rightarrow> track B T frame s
    | Idle \<Rightarrow> s)"
  have "same_length s1"
    unfolding s1_def using assms
    by (cases "trackingState s") (simp_all add: bootstrapTracking_same_length track_same_length)
  then have "same_length (if canCalcModelViewMatrix T s1 then calcModelViewMatrix B s1 else s1)"
    by (simp add: calcModelViewMatrix_same_length)
  then show ?thesis
    unfolding process_def Let_def s1_def .
qed

lemma reachable_same_length: "reachable T s \<Longrightarrow> same_length s"
proof (induction rule: reachable.induct)
  case (constructed s)
  then show ?case by (simp add: same_length_def)
next
  case (after_setMarker s B marker)
  then show ?case by (simp add: same_length_def setMarker_vectors)
next
  case (after_bootstrapTracking s B frame useHomography msk)
  show ?case by (rule bootstrapTracking_same_length)
next
  case (after_track s B frame)
  then show ?case by (simp add: track_same_length)
next
  case (after_process s B frame msk)
  then show ?case by (simp add: process_same_length)
next
  case (after_calcModelViewMatrix s B)
  then show ?case by (simp add: calcModelViewMatrix_same_length)
next
  case (after_reset s)
  show ?case by (rule reset_same_length)
next
  case (after_setDebug s b)
  then show ?case by (simp add: same_length_def setDebug_def)
next
  case (after_setToProcessFrame s f)
  then show ?case by (simp add: same_length_def setToProcessFrame_def lock_def unlock_def)
next
  case (after_public_write s f m mv)
  then show ?case by (simp add: same_length_def)
qed

text \<open>
  C1. In every state the tracker can reach by \<^verbatim>\<open>setMarker\<close>, \<^verbatim>\<open>bootstrapTracking\<close>,
  \<^verbatim>\<open>track\<close>, \<^verbatim>\<open>process\<close> and \<^verbatim>\<open>reset\<close>, the vector of tracked features and the
  vector of their links to marker keypoints have the same length; and when \<^verbatim>\<open>track\<close>
  drops features, the link vector loses the entries at the same positions, so that
  every surviving feature is still paired with the link it had.
\<close>

theorem tracked_vectors_same_length:
  assumes "reachable T s"
  shows "length (trackedFeatures s) = length (trackedFeaturesOnMarker s) \<and>
    (flow_contract B \<longrightarrow>
       length (trackedFeatures (dropLost B frame s))
         = length (trackedFeaturesOnMarker (dropLost B frame s)) \<and>
       trackedFeaturesOnMarker (dropLost B frame s)
         = select (keepMask B frame s) (trackedFeaturesOnMarker s) \<and>
       zip (trackedFeatures (dropLost B frame s)) (trackedFeaturesOnMarker (dropLost B frame s))
         = select (keepMask B frame s)
             (zip (map fst (opticalFlow B (prevGray s) frame (trackedFeatures s)))
                  (trackedFeaturesOnMarker s)))"
proof -
  have inv: "same_length s"
    using assms by (rule reachable_same_length)
  have "zip (trackedFeatures (dropLost B frame s)) (trackedFeaturesOnMarker (dropLost B frame s))
         = select (keepMask B frame s)
             (zip (map fst (opticalFlow B (prevGray s) frame (trackedFeatures s)))
                  (trackedFeaturesOnMarker s))"
    if "flow_contract B"
  proof -
    have "length (map fst (opticalFlow B (prevGray s) frame (trackedFeatures s)))
            = length (trackedFeaturesOnMarker s)"
      using that inv by (simp add: flow_contract_def same_length_def)
    then show ?thesis
      unfolding dropLost_vectors by (rule zip_select)
  qed
  moreover have "length (trackedFeatures (dropLost B frame s))
         = length (trackedFeaturesOnMarker (dropLost B frame s))" if "flow_contract B"
    using dropLost_same_length [OF that inv] by (simp add: same_length_def)
  ultimately show ?thesis
    using inv by (simp add: same_length_def dropLost_vectors)
qed

lemma example_flow_contract: "flow_contract example_backend"
  by (simp add: flow_contract_def example_backend_def)

lemma example_bootstrapped_vectors:
  "trackedFeatures example_bootstrapped = [0, 2, 3, 4]"
  "trackedFeaturesOnMarker example_bootstrapped = [0, 2, 3, 4]"
  "trackingState example_bootstrapped = Tracking"
  by code_simp+

lemma example_dropLost_vectors:
  "trackedFeatures (dropLost example_backend example_frame example_bootstrapped) = [10, 13, 14]"
  "trackedFeaturesOnMarker (dropLost example_backend example_frame example_bootstrapped) = [0, 3, 4]"
  by code_simp+

lemma example_bootstrapped_reachable: "reachable example_thresholds example_bootstrapped"
  unfolding example_bootstrapped_def
  by (intro reachable.after_bootstrapTracking reachable.after_setMarker reachable.constructed)
    (simp_all add: blank_tracker_def)

theorem tracked_vectors_same_length_witness:
  "reachable example_thresholds example_bootstrapped \<and> flow_contract example_backend \<and>
   length (trackedFeatures example_bootstrapped) = length (trackedFeaturesOnMarker example_bootstrapped) \<and>
   zip (trackedFeatures (dropLost example_backend example_frame example_bootstrapped))
       (trackedFeaturesOnMarker (dropLost example_backend example_frame example_bootstrapped))
     = select (keepMask example_backend example_frame example_bootstrapped)
         (zip (map fst (opticalFlow example_backend (prevGray example_bootstrapped) example_frame
                  (trackedFeatures example_bootstrapped)))
              (trackedFeaturesOnMarker example_bootstrapped)) \<and>
   zip (trackedFeatures (dropLost example_backend example_frame example_bootstrapped))
       (trackedFeaturesOnMarker (dropLost example_backend example_frame example_bootstrapped))
     = [(10, 0), (13, 3), (14, 4)]"
proof -
  note inst = tracked_vectors_same_length [OF example_bootstrapped_reachable,
      of example_backend example_frame]
  have evaluated: "zip (trackedFeatures (dropLost example_backend example_frame example_bootstrapped))
       (trackedFeaturesOnMarker (dropLost example_backend example_frame example_bootstrapped))
     = [(10, 0), (13, 3), (14, 4)]"
    by (simp add: example_dropLost_vectors)
  show ?thesis
    using inst example_flow_contract example_bootstrapped_reachable evaluated by blast
qed

section \<open>Losing track\<close>

text \<open>
  C2. When a tracker in the Tracking state is given a frame in which fewer features
  survive than the tracking-lost threshold, \<^verbatim>\<open>track\<close> resets it: its state is
  Bootstrapping, and the next \<^verbatim>\<open>process\<close> call, whatever its frame, dispatches to
  \<^verbatim>\<open>bootstrapTracking\<close> and not to \<^verbatim>\<open>track\<close>.
\<close>

theorem tracking_lost_returns_to_bootstrap:
  assumes "trackingState s = Tracking"
    and "length (trackedFeatures (dropLost B frame s)) < minTracked T"
  shows "track B T frame s = reset (dropLost B frame s) \<and>
    trackingState (track B T frame s) = Bootstrapping \<and>
    process B' T frame' msk (track B T frame s) =
      (let s1 = bootstrapTracking B' T frame' Mat_default msk (track B T frame s)
       in if canCalcModelViewMatrix T s1 then calcModelViewMatrix B' s1 else s1)"
proof -
  have t: "track B T frame s = reset (dropLost B frame s)"
    using assms(2) by (simp add: track_def Let_def)
  have st: "trackingState (track B T frame s) = Bootstrapping"
    by (simp add: t trackingState_def reset_def)
  show ?thesis
    using t st by (simp add: process_def)
qed

theorem tracking_lost_returns_to_bootstrap_witness:
  "trackingState example_bootstrapped = Tracking \<and>
   length (trackedFeatures (dropLost example_backend example_frame example_bootstrapped))
     < minTracked example_thresholds \<and>
   trackingState (track example_backend example_thresholds example_frame example_bootstrapped)
     = Bootstrapping"
proof -
  have st: "trackingState example_bootstrapped = Tracking"
    by (rule example_bootstrapped_vectors)
  have few: "length (trackedFeatures (dropLost example_backend example_frame example_bootstrapped))
     < minTracked example_thresholds"
    by (simp add: example_dropLost_vectors example_thresholds_def)
  show ?thesis
    using tracking_lost_returns_to_bootstrap [OF st few,
        where B' = example_backend and frame' = example_frame and msk = Mat_default] st few
    by blast
qed

section \<open>Registering a marker\<close>

text \<open>
  C6. \<^verbatim>\<open>setMarker\<close> succeeds on every marker image on which the detector finds at
  least the minimum number of keypoints, and then stores the frame, the keypoints and
  the descriptors and trains the matcher; on an image with fewer keypoints it returns
  the error and the tracker it was given, with no field changed.
\<close>

theorem setMarker_threshold:
  "(minMarkerKeypoints T \<le> length (detect B marker Mat_default) \<longrightarrow>
      fst (setMarker B T marker s) = Inr () \<and>
      marker_frame (snd (setMarker B T marker s)) = marker \<and>
      marker_kp (snd (setMarker B T marker s)) = detect B marker Mat_default \<and>
      marker_desc (snd (setMarker B T marker s)) = compute B marker (detect B marker Mat_default) \<and>
      matcher (snd (setMarker B T marker s)) = [compute B marker (detect B marker Mat_default)]) \<and>
   (length (detect B marker Mat_default) < minMarkerKeypoints T \<longrightarrow>
      setMarker B T marker s = (Inl InsufficientFeatures, s))"
  by (simp add: setMarker_def Let_def)

lemma example_detect:
  "detect example_backend example_frame Mat_default = [0, 1, 2, 3, 4]"
  "detect example_backend small_frame Mat_default = [0, 1]"
  by code_simp+

theorem setMarker_threshold_witness:
  "minMarkerKeypoints example_thresholds \<le> length (detect example_backend example_frame Mat_default) \<and>
   fst (setMarker example_backend example_thresholds example_frame blank_tracker) = Inr () \<and>
   marker_kp (snd (setMarker example_backend example_thresholds example_frame blank_tracker))
     = [0, 1, 2, 3, 4] \<and>
   length (detect example_backend small_frame Mat_default) < minMarkerKeypoints example_thresholds \<and>
   setMarker example_backend example_thresholds small_frame blank_tracker
     = (Inl InsufficientFeatures, blank_tracker)"
  using setMarker_threshold [of example_thresholds example_backend example_frame blank_tracker]
    setMarker_threshold [of example_thresholds example_backend small_frame blank_tracker]
  by (simp add: example_detect example_thresholds_def)

section \<open>Reading the pose\<close>

lemma eye_data_4: "eye_data 4 4 = [1,0,0,0, 0,1,0,0, 0,0,1,0, 0,0,0,1]"
  by (simp add: eye_data_def upt_rec [of 0] upt_rec [of 1] upt_rec [of 2] upt_rec [of 3] upt_rec [of "Suc _"] eval_nat_numeral)

lemma getModelViewMatrix_cases:
  "getModelViewMatrix h s =
     (if Mat_empty (modelViewMatrix s)
      then (\<lparr>rows = 4, cols = 4, data = Some (length h)\<rparr>, s, h @ [eye_data 4 4])
      else (\<lparr>rows = rows (modelViewMatrix s), cols = cols (modelViewMatrix s),
              data = Some (length h)\<rparr>, s,
            h @ [Mat_contents h (modelViewMatrix s)]))"
  by (auto simp: getModelViewMatrix_def Mat_eye_def alloc_def Mat_empty_def Mat_copyTo_def
      Mat_create_def Mat_default_def Mat_contents_def lock_def unlock_def)

text \<open>
  C3. As long as the stored \<^verbatim>\<open>modelViewMatrix\<close> is empty (no pose was ever computed),
  \<^verbatim>\<open>getModelViewMatrix\<close> returns a 4x4 identity matrix in a buffer of its own; it
  has no failing branch.
\<close>

theorem getModelViewMatrix_identity:
  "Mat_empty (modelViewMatrix s) \<Longrightarrow>
   getModelViewMatrix h s =
     (\<lparr>rows = 4, cols = 4, data = Some (length h)\<rparr>, s,
      h @ [[1,0,0,0, 0,1,0,0, 0,0,1,0, 0,0,0,1]])"
  by (simp add: getModelViewMatrix_def Mat_eye_def alloc_def eye_data_4)

theorem getModelViewMatrix_identity_witness:
  "Mat_empty (modelViewMatrix blank_tracker) \<and>
   getModelViewMatrix ([] :: int store) blank_tracker =
     (\<lparr>rows = 4, cols = 4, data = Some 0\<rparr>, blank_tracker,
      [[1,0,0,0, 0,1,0,0, 0,0,1,0, 0,0,0,1]])"
proof -
  have e: "Mat_empty (modelViewMatrix blank_tracker)"
    by (simp add: blank_tracker_def Mat_default_def Mat_empty_def)
  show ?thesis
    using getModelViewMatrix_identity [OF e, of "[] :: int store"] e by simp
qed

lemma Mat_write_other:
  "data m = Some a \<Longrightarrow> data m' = Some b \<Longrightarrow> a \<noteq> b \<Longrightarrow>
   Mat_contents (Mat_write h m i j v) m' = Mat_contents h m'"
  by (simp add: Mat_contents_def Mat_write_def)

lemma Mat_write_None:
  "data m' = None \<Longrightarrow> Mat_contents (Mat_write h m i j v) m' = Mat_contents h m'"
  "data m = None \<Longrightarrow> Mat_write h m i j v = h"
  by (simp_all add: Mat_contents_def Mat_write_def)


text \<open>
  C10, as the header has it. Whatever the state, \<^verbatim>\<open>getModelViewMatrix\<close> returns a
  matrix that is not empty and leaves the tracker and every existing buffer as they
  were. The result lives in a newly allocated buffer: it is the 4x4 identity when no
  pose is stored, and otherwise a copy of the stored pose with the extent of the stored
  pose (so 4x4 whenever the stored pose is 4x4). A write through the returned matrix
  does not change what the stored matrix holds, and a write through the stored matrix
  does not change what the returned matrix holds.
\<close>

theorem getModelViewMatrix_detached:
  assumes valid: "Mat_valid h (modelViewMatrix s)"
    and call: "getModelViewMatrix h s = (m, s', h')"
  shows "\<not> Mat_empty m \<and> s' = s \<and> take (length h) h' = h \<and>
     data m = Some (length h) \<and> data m \<noteq> data (modelViewMatrix s) \<and>
     (if Mat_empty (modelViewMatrix s)
      then rows m = 4 \<and> cols m = 4 \<and> Mat_contents h' m = eye_data 4 4
      else rows m = rows (modelViewMatrix s) \<and> cols m = cols (modelViewMatrix s) \<and>
           Mat_contents h' m = Mat_contents h (modelViewMatrix s)) \<and>
     Mat_contents h' (modelViewMatrix s) = Mat_contents h (modelViewMatrix s) \<and>
     Mat_contents (Mat_write h' m i j v) (modelViewMatrix s) = Mat_contents h' (modelViewMatrix s) \<and>
     Mat_contents (Mat_write h' (modelViewMatrix s) i j v) m = Mat_contents h' m"
proof -
  let ?mv = "modelViewMatrix s"
  have fresh: "data ?mv \<noteq> Some (length h)"
    using valid by (auto simp: Mat_valid_def split: option.splits)
  have m: "data m = Some (length h)" and s': "s' = s"
    and h': "h' = h @ [if Mat_empty ?mv then eye_data 4 4 else Mat_contents h ?mv]"
    and dims: "rows m = (if Mat_empty ?mv then 4 else rows ?mv)"
      "cols m = (if Mat_empty ?mv then 4 else cols ?mv)"
    using call by (auto simp: getModelViewMatrix_cases split: if_splits)
  have nonempty: "\<not> Mat_empty m"
    using m dims by (auto simp: Mat_empty_def)
  have old: "Mat_contents h' ?mv = Mat_contents h ?mv"
    using valid by (auto simp: h' Mat_contents_def Mat_valid_def nth_append split: option.splits)
  have new: "Mat_contents h' m = (if Mat_empty ?mv then eye_data 4 4 else Mat_contents h ?mv)"
    by (simp add: h' m Mat_contents_def)
  have w1: "Mat_contents (Mat_write h' m i j v) ?mv = Mat_contents h' ?mv"
  proof (cases "data ?mv")
    case None
    then show ?thesis by (simp add: Mat_write_None)
  next
    case (Some a)
    with fresh m show ?thesis by (simp add: Mat_write_other)
  qed
  have w2: "Mat_contents (Mat_write h' ?mv i j v) m = Mat_contents h' m"
  proof (cases "data ?mv")
    case None
    then show ?thesis by (simp add: Mat_write_None)
  next
    case (Some a)
    with fresh m show ?thesis by (simp add: Mat_write_other)
  qed
  have kept: "take (length h) h' = h"
    by (simp add: h')
  show ?thesis
    using fresh m s' nonempty kept old new w1 w2 dims by simp
qed

lemma posed_tracker_pose:
  "modelViewMatrix posed_tracker = \<lparr>rows = 4, cols = 4, data = Some 0\<rparr>"
  by (simp add: posed_tracker_def)

theorem getModelViewMatrix_detached_witness:
  "Mat_valid posed_store (modelViewMatrix posed_tracker) \<and>
   getModelViewMatrix posed_store posed_tracker =
     (\<lparr>rows = 4, cols = 4, data = Some 3\<rparr>, posed_tracker,
      posed_store @ [[1,0,0,5, 0,1,0,6, 0,0,1,7, 0,0,0,1]]) \<and>
   \<not> Mat_empty \<lparr>rows = 4, cols = 4, data = Some 3\<rparr> \<and>
   Mat_contents
     (Mat_write (posed_store @ [[1,0,0,5, 0,1,0,6, 0,0,1,7, 0,0,0,1]])
        \<lparr>rows = 4, cols = 4, data = Some 3\<rparr> 0 3 99)
     (modelViewMatrix posed_tracker)
     = [1,0,0,5, 0,1,0,6, 0,0,1,7, 0,0,0,1] \<and>
   Mat_contents
     (Mat_write (posed_store @ [[1,0,0,5, 0,1,0,6, 0,0,1,7, 0,0,0,1]])
        (modelViewMatrix posed_tracker) 0 3 99)
     \<lparr>rows = 4, cols = 4, data = Some 3\<rparr>
     = [1,0,0,5, 0,1,0,6, 0,0,1,7, 0,0,0,1]"
proof -
  have valid: "Mat_valid posed_store (modelViewMatrix posed_tracker)"
    by (simp add: posed_tracker_pose Mat_valid_def posed_store_def)
  have call: "getModelViewMatrix posed_store posed_tracker =
     (\<lparr>rows = 4, cols = 4, data = Some 3\<rparr>, posed_tracker,
      posed_store @ [[1,0,0,5, 0,1,0,6, 0,0,1,7, 0,0,0,1]])"
    by (simp add: getModelViewMatrix_cases posed_tracker_pose Mat_empty_def Mat_contents_def
        posed_store_def)
  have stored: "Mat_contents (posed_store @ [[1,0,0,5, 0,1,0,6, 0,0,1,7, 0,0,0,1]])
       (modelViewMatrix posed_tracker) = [1,0,0,5, 0,1,0,6, 0,0,1,7, 0,0,0,1]"
    by (simp add: posed_tracker_pose Mat_contents_def posed_store_def)
  have copy: "Mat_contents (posed_store @ [[1,0,0,5, 0,1,0,6, 0,0,1,7, 0,0,0,1]])
       \<lparr>rows = 4, cols = 4, data = Some 3\<rparr> = [1,0,0,5, 0,1,0,6, 0,0,1,7, 0,0,0,1]"
    by (simp add: Mat_contents_def posed_store_def)
  note inst = getModelViewMatrix_detached [OF valid call, of 0 3 99]
  have ne: "\<not> Mat_empty \<lparr>rows = 4, cols = 4, data = Some 3\<rparr>"
    using inst by blast
  have w1: "Mat_contents
     (Mat_write (posed_store @ [[1,0,0,5, 0,1,0,6, 0,0,1,7, 0,0,0,1]])
        \<lparr>rows = 4, cols = 4, data = Some 3\<rparr> 0 3 99)
     (modelViewMatrix posed_tracker)
     = Mat_contents (posed_store @ [[1,0,0,5, 0,1,0,6, 0,0,1,7, 0,0,0,1]])
         (modelViewMatrix posed_tracker)"
    using inst by blast
  have w2: "Mat_contents
     (Mat_write (posed_store @ [[1,0,0,5, 0,1,0,6, 0,0,1,7, 0,0,0,1]])
        (modelViewMatrix posed_tracker) 0 3 99)
     \<lparr>rows = 4, cols = 4, data = Some 3\<rparr>
     = Mat_contents (posed_store @ [[1,0,0,5, 0,1,0,6, 0,0,1,7, 0,0,0,1]])
         \<lparr>rows = 4, cols = 4, data = Some 3\<rparr>"
    using inst by blast
  show ?thesis
    using valid call ne trans [OF w1 stored] trans [OF w2 copy] by blast
qed


text \<open>
  C10 as claimed says that the result is 4x4 in every state. \<^verbatim>\<open>modelViewMatrix\<close> is a
  public field of type \<^verbatim>\<open>Mat_<float>\<close>: when it holds a 2x2 matrix, the getter
  returns a 2x2 copy.
\<close>

theorem getModelViewMatrix_not_4x4_counterexample:
  "getModelViewMatrix small_pose_store small_pose_tracker =
     (\<lparr>rows = 2, cols = 2, data = Some 1\<rparr>, small_pose_tracker, [[1, 2, 3, 4], [1, 2, 3, 4]]) \<and>
   \<not> (rows (fst (getModelViewMatrix small_pose_store small_pose_tracker)) = 4 \<and>
      cols (fst (getModelViewMatrix small_pose_store small_pose_tracker)) = 4)"
proof -
  have mv: "modelViewMatrix small_pose_tracker = \<lparr>rows = 2, cols = 2, data = Some 0\<rparr>"
    by (simp add: small_pose_tracker_def)
  have "getModelViewMatrix small_pose_store small_pose_tracker =
     (\<lparr>rows = 2, cols = 2, data = Some 1\<rparr>, small_pose_tracker, [[1, 2, 3, 4], [1, 2, 3, 4]])"
    by (simp add: getModelViewMatrix_cases mv Mat_empty_def Mat_contents_def small_pose_store_def)
  then show ?thesis by simp
qed

section \<open>Resetting\<close>

text \<open>
  C9. \<^verbatim>\<open>reset\<close> sets both the tracking flag and the bootstrap flag, and
  \<^verbatim>\<open>isTracking\<close> returns the disjunction of the two flags of the tracker it is asked
  about. So right after \<^verbatim>\<open>reset\<close> the tracker answers \<^verbatim>\<open>isTracking\<close> with true, in
  every state, although both vectors are empty and no feature is tracked. The same
  holds after the automatic reset: when \<^verbatim>\<open>track\<close> is left with fewer features than
  the tracking-lost threshold, its result is a \<^verbatim>\<open>reset\<close>, it answers \<^verbatim>\<open>isTracking\<close>
  with true and tracks nothing. (\<^verbatim>\<open>track\<close> is the model of section 4.1;
  \<^verbatim>\<open>reset\<close> and \<^verbatim>\<open>isTracking\<close> are the header's.)
\<close>

theorem isTracking_after_reset:
  "tracking (reset s) \<and> bootstrap (reset s) \<and>
   isTracking t = (tracking t \<or> bootstrap t) \<and>
   isTracking (reset s) \<and>
   trackedFeatures (reset s) = [] \<and> trackedFeaturesOnMarker (reset s) = [] \<and>
   (length (trackedFeatures (dropLost B frame s)) < minTracked T \<longrightarrow>
      track B T frame s = reset (dropLost B frame s) \<and>
      isTracking (track B T frame s) \<and>
      trackedFeatures (track B T frame s) = [] \<and>
      trackedFeaturesOnMarker (track B T frame s) = [])"
proof -
  have flags: "tracking (reset s') \<and> bootstrap (reset s')" for s' :: "('a, 'b) Tracker"
    by (simp add: reset_def)
  have cleared: "trackedFeatures (reset s') = [] \<and> trackedFeaturesOnMarker (reset s') = []"
    for s' :: "('a, 'b) Tracker"
    by (simp add: reset_def)
  have disj: "isTracking t = (tracking t \<or> bootstrap t)"
    by (simp add: isTracking_def)
  have after: "isTracking (reset s')" for s' :: "('a, 'b) Tracker"
    using flags [of s'] by (simp add: isTracking_def)
  have lost: "track B T frame s = reset (dropLost B frame s)"
    if "length (trackedFeatures (dropLost B frame s)) < minTracked T"
    using that by (simp add: track_def Let_def)
  show ?thesis
    using flags [of s] cleared [of s] disj after [of s]
      flags [of "dropLost B frame s"] cleared [of "dropLost B frame s"]
      after [of "dropLost B frame s"] lost
    by simp
qed

theorem isTracking_after_reset_witness:
  "length (trackedFeatures (dropLost example_backend example_frame example_bootstrapped))
     < minTracked example_thresholds \<and>
   isTracking (track example_backend example_thresholds example_frame example_bootstrapped) \<and>
   trackedFeatures (track example_backend example_thresholds example_frame example_bootstrapped)
     = [] \<and>
   isTracking (reset posed_tracker) \<and>
   trackedFeatures posed_tracker = [0, 1, 2, 3, 4] \<and>
   trackedFeatures (reset posed_tracker) = [] \<and>
   isTracking blank_tracker = False \<and>
   isTracking (reset blank_tracker)"
proof -
  have few: "length (trackedFeatures (dropLost example_backend example_frame example_bootstrapped))
     < minTracked example_thresholds"
    by (simp add: example_dropLost_vectors example_thresholds_def)
  note lost = isTracking_after_reset [of example_bootstrapped blank_tracker example_backend
      example_frame example_thresholds]
  note posed = isTracking_after_reset [of posed_tracker blank_tracker example_backend
      example_frame example_thresholds]
  note blank = isTracking_after_reset [of blank_tracker blank_tracker example_backend
      example_frame example_thresholds]
  have a: "isTracking (track example_backend example_thresholds example_frame example_bootstrapped)"
    and b: "trackedFeatures (track example_backend example_thresholds example_frame
      example_bootstrapped) = []"
    using lost few by blast+
  have c: "isTracking (reset posed_tracker)" and d: "trackedFeatures (reset posed_tracker) = []"
    using posed by blast+
  have e: "trackedFeatures posed_tracker = [0, 1, 2, 3, 4]"
    by (simp add: posed_tracker_def)
  have f: "isTracking blank_tracker = False"
    using blank by (simp add: blank_tracker_def)
  have g: "isTracking (reset blank_tracker)"
    using blank by blast
  show ?thesis
    using few a b c d e f g by blast
qed

text \<open>
  C4, as the header has it. \<^verbatim>\<open>reset\<close> empties both vectors, sets both flags (the
  state is Bootstrapping), releases the seeds \<^verbatim>\<open>raux\<close> and \<^verbatim>\<open>taux\<close>, and leaves the
  stored \<^verbatim>\<open>modelViewMatrix\<close> as it was.
\<close>

theorem reset_effect:
  "trackedFeatures (reset s) = [] \<and> trackedFeaturesOnMarker (reset s) = [] \<and>
   bootstrap (reset s) \<and> tracking (reset s) \<and> trackingState (reset s) = Bootstrapping \<and>
   Mat_empty (raux (reset s)) \<and> Mat_empty (taux (reset s)) \<and>
   modelViewMatrix (reset s) = modelViewMatrix s"
  by (simp add: reset_def trackingState_def Mat_empty_def Mat_release_def)

text \<open>
  C4 as claimed says that \<^verbatim>\<open>reset\<close> also discards the cached pose. It does not: a
  tracker with a pose stored still has it after \<^verbatim>\<open>reset\<close>, and the getter returns a
  copy of that pose, not the identity.
\<close>

theorem reset_keeps_pose_counterexample:
  "\<not> Mat_empty (modelViewMatrix (reset posed_tracker)) \<and>
   getModelViewMatrix posed_store (reset posed_tracker) =
     (\<lparr>rows = 4, cols = 4, data = Some 3\<rparr>, reset posed_tracker,
      posed_store @ [[1,0,0,5, 0,1,0,6, 0,0,1,7, 0,0,0,1]])"
proof -
  have mv: "modelViewMatrix (reset posed_tracker) = \<lparr>rows = 4, cols = 4, data = Some 0\<rparr>"
    by (simp add: reset_def posed_tracker_def)
  have ne: "\<not> Mat_empty (modelViewMatrix (reset posed_tracker))"
    by (simp add: mv Mat_empty_def)
  show ?thesis
    using ne by (simp add: getModelViewMatrix_cases mv Mat_contents_def posed_store_def)
qed


section \<open>Recognising a marker\<close>

lemma ranked_mset: "mset (ranked dist q ts) = mset ts"
  by (simp add: ranked_def)

lemma ranked_set: "set (ranked dist q ts) = set ts"
  by (simp add: ranked_def)

lemma ranked_sorted: "sorted (map (\<lambda>(e, l). dist q e) (ranked dist q ts))"
  by (simp add: ranked_def)

lemma ranked_Nil: "ranked dist q ts = [] \<longleftrightarrow> ts = []"
  using ranked_set [of dist q ts] by (metis set_empty)

lemma ranked_head_nearest:
  assumes "ranked dist q ts = (e, l) # rest"
  shows "dist q e = Min ((\<lambda>(e, l). dist q e) ` set ts)"
proof -
  let ?f = "\<lambda>(e, l). dist q e"
  have srt: "sorted (map ?f ((e, l) # rest))"
    using ranked_sorted [of dist q ts] assms by simp
  have st: "set ts = set ((e, l) # rest)"
    using ranked_set [of dist q ts] assms by simp
  have "Min (?f ` set ts) = ?f (e, l)"
  proof (rule Min_eqI)
    show "finite (?f ` set ts)" by simp
    show "?f (e, l) \<in> ?f ` set ts" unfolding st by simp
    fix y assume "y \<in> ?f ` set ts"
    then show "?f (e, l) \<le> y" using srt unfolding st by auto
  qed
  then show ?thesis by simp
qed

lemma fold_vote:
  fixes cnt :: "string \<Rightarrow> nat"
  defines "step \<equiv> (\<lambda>c best. if cnt best < cnt c then c else best)"
  shows "fold step xs b \<in> insert b (set xs) \<and> cnt b \<le> cnt (fold step xs b) \<and>
         (\<forall>c \<in> set xs. cnt c \<le> cnt (fold step xs b))"
proof (induction xs arbitrary: b)
  case Nil
  show ?case by simp
next
  case (Cons x xs)
  from Cons.IH [of "step x b"] have
    mem: "fold step xs (step x b) \<in> insert (step x b) (set xs)"
    and ge: "cnt (step x b) \<le> cnt (fold step xs (step x b))"
    and all: "\<forall>c \<in> set xs. cnt c \<le> cnt (fold step xs (step x b))"
    by blast+
  have sb: "step x b = x \<or> step x b = b" and "cnt b \<le> cnt (step x b)" "cnt x \<le> cnt (step x b)"
    by (auto simp: step_def)
  with mem ge all show ?case by auto
qed

lemma majority_most_votes:
  assumes "ls \<noteq> []"
  shows "majority ls \<in> set ls \<and> (\<forall>c. count_list ls c \<le> count_list ls (majority ls))"
proof -
  obtain l rest where ls: "ls = l # rest"
    using assms by (cases ls) auto
  let ?step = "\<lambda>c best. if count_list ls best < count_list ls c then c else best"
  have m: "majority ls = fold ?step rest l"
    by (simp add: ls)
  note v = fold_vote [of "count_list ls" rest l]
  have mem: "majority ls \<in> set ls"
    using v by (simp add: m ls)
  have "count_list ls c \<le> count_list ls (majority ls)" for c
  proof (cases "c \<in> set ls")
    case True
    then show ?thesis using v unfolding m [symmetric] by (auto simp: ls)
  next
    case False
    then have "count_list ls c = 0" by (simp add: count_list_0_iff)
    then show ?thesis by simp
  qed
  with mem show ?thesis by blast
qed

lemma kNearest_length: "length (kNearest dist q k ts) = min k (length ts)"
proof -
  have "length (ranked dist q ts) = length ts"
    using ranked_mset [of dist q ts] by (metis size_mset)
  then show ?thesis by (simp add: kNearest_def min.commute)
qed

lemma kNearest_split:
  "mset ts = mset (kNearest dist q k ts) + mset (drop k (ranked dist q ts))"
proof -
  have "mset (ranked dist q ts) = mset (take k (ranked dist q ts) @ drop k (ranked dist q ts))"
    by simp
  then show ?thesis
    unfolding kNearest_def ranked_mset mset_append .
qed

lemma kNearest_closest:
  assumes "x \<in> set (kNearest dist q k ts)"
    and "y \<in># mset ts - mset (kNearest dist q k ts)"
  shows "dist q (fst x) \<le> dist q (fst y)"
proof -
  let ?f = "\<lambda>(e, l). dist q e"
  let ?r = "ranked dist q ts"
  have "mset ts - mset (kNearest dist q k ts) = mset (drop k ?r)"
    using kNearest_split [of ts dist q k] by simp
  then have y: "y \<in> set (drop k ?r)"
    using assms(2) by simp
  have x: "x \<in> set (take k ?r)"
    using assms(1) by (simp add: kNearest_def)
  have "sorted (map ?f (take k ?r) @ map ?f (drop k ?r))"
    using ranked_sorted [of dist q ts] by (metis append_take_drop_id map_append)
  then have "\<forall>a \<in> set (map ?f (take k ?r)). \<forall>b \<in> set (map ?f (drop k ?r)). a \<le> b"
    by (simp add: sorted_append)
  then have "?f x \<le> ?f y"
    using x y by auto
  then show ?thesis by (simp add: case_prod_unfold)
qed

lemma detectMarkerInImage_unfold:
  "detectMarkerInImage enc dist thr k md img msk =
     (if trainingSet md = [] then []
      else if thr < Min ((\<lambda>(e, l). dist (enc img msk) e) ` set (trainingSet md)) then []
      else majority (map snd (kNearest dist (enc img msk) k (trainingSet md))))"
proof (cases "ranked dist (enc img msk) (trainingSet md)")
  case Nil
  then have "trainingSet md = []" by (simp add: ranked_Nil)
  with Nil show ?thesis by (simp add: detectMarkerInImage_def)
next
  case (Cons p rest)
  obtain e l where p: "p = (e, l)" by (cases p)
  have ne: "trainingSet md \<noteq> []"
    using Cons ranked_Nil [of dist "enc img msk" "trainingSet md"] by auto
  have "dist (enc img msk) e = Min ((\<lambda>(e, l). dist (enc img msk) e) ` set (trainingSet md))"
    using Cons p by (intro ranked_head_nearest) simp
  with Cons p ne show ?thesis by (simp add: detectMarkerInImage_def Let_def)
qed

text \<open>
  C7. \<^verbatim>\<open>detectMarkerInImage\<close> always returns a label. The label is empty when the
  training set is empty and when the distance from the query's encoding to its nearest
  training encoding exceeds the rejection threshold. Otherwise it is the majority label
  of the \<open>k\<close> nearest training encodings: for \<open>k > 0\<close> one of their labels, with at
  least as many votes among them as any other label, where the \<open>k\<close> nearest are
  \<open>min k n\<close> of the \<open>n\<close> training pairs and no pair left out is nearer to the query
  than a pair taken.
\<close>

theorem detectMarkerInImage_result:
  "(trainingSet md = [] \<longrightarrow> detectMarkerInImage enc dist thr k md img msk = []) \<and>
   (trainingSet md \<noteq> [] \<and>
    thr < Min ((\<lambda>(e, l). dist (enc img msk) e) ` set (trainingSet md)) \<longrightarrow>
      detectMarkerInImage enc dist thr k md img msk = []) \<and>
   (trainingSet md \<noteq> [] \<and>
    \<not> thr < Min ((\<lambda>(e, l). dist (enc img msk) e) ` set (trainingSet md)) \<longrightarrow>
      detectMarkerInImage enc dist thr k md img msk
        = majority (map snd (kNearest dist (enc img msk) k (trainingSet md))) \<and>
      (0 < k \<longrightarrow>
        detectMarkerInImage enc dist thr k md img msk
          \<in> snd ` set (kNearest dist (enc img msk) k (trainingSet md)) \<and>
        (\<forall>c. count_list (map snd (kNearest dist (enc img msk) k (trainingSet md))) c
              \<le> count_list (map snd (kNearest dist (enc img msk) k (trainingSet md)))
                  (detectMarkerInImage enc dist thr k md img msk)))) \<and>
   length (kNearest dist (enc img msk) k (trainingSet md)) = min k (length (trainingSet md)) \<and>
   mset (kNearest dist (enc img msk) k (trainingSet md)) \<subseteq># mset (trainingSet md) \<and>
   (\<forall>x \<in> set (kNearest dist (enc img msk) k (trainingSet md)).
      \<forall>y \<in># mset (trainingSet md) - mset (kNearest dist (enc img msk) k (trainingSet md)).
        dist (enc img msk) (fst x) \<le> dist (enc img msk) (fst y))"
proof -
  let ?near = "kNearest dist (enc img msk) k (trainingSet md)"
  have vote: "majority (map snd ?near) \<in> snd ` set ?near \<and>
      (\<forall>c. count_list (map snd ?near) c \<le> count_list (map snd ?near) (majority (map snd ?near)))"
    if "trainingSet md \<noteq> []" "0 < k"
  proof -
    have "length ?near \<noteq> 0"
      using that by (simp add: kNearest_length)
    then have "map snd ?near \<noteq> []" by simp
    from majority_most_votes [OF this] show ?thesis by simp
  qed
  have sub: "mset ?near \<subseteq># mset (trainingSet md)"
    using kNearest_split [of "trainingSet md" dist "enc img msk" k] by simp
  show ?thesis
    using vote sub kNearest_closest [of _ dist "enc img msk" k "trainingSet md"]
    by (simp add: detectMarkerInImage_unfold kNearest_length)
qed

lemma example_trainingSet:
  "trainingSet example_detector = [(10, ''a''), (12, ''b''), (14, ''a''), (40, ''b''), (11, ''a'')]"
  "trainingSet untrained_detector = []"
  by code_simp+

lemma example_queries:
  "example_enc example_frame Mat_default = 5"
  "example_enc far_frame Mat_default = 100"
  by (simp_all add: example_enc_def example_frame_def far_frame_def)

lemma example_nearest_distance:
  "Min ((\<lambda>(e, l). example_dist (example_enc example_frame Mat_default) e)
          ` set (trainingSet example_detector)) = 5"
  "Min ((\<lambda>(e, l). example_dist (example_enc far_frame Mat_default) e)
          ` set (trainingSet example_detector)) = 60"
  by (simp_all add: example_trainingSet example_queries example_dist_def)

lemma example_kNearest:
  "kNearest example_dist (example_enc example_frame Mat_default) 3 (trainingSet example_detector)
     = [(10, ''a''), (11, ''a''), (12, ''b'')]"
  by code_simp

theorem detectMarkerInImage_result_witness:
  "trainingSet untrained_detector = [] \<and>
   detectMarkerInImage example_enc example_dist 5 3 untrained_detector example_frame Mat_default = [] \<and>
   trainingSet example_detector \<noteq> [] \<and>
   5 < Min ((\<lambda>(e, l). example_dist (example_enc far_frame Mat_default) e)
              ` set (trainingSet example_detector)) \<and>
   detectMarkerInImage example_enc example_dist 5 3 example_detector far_frame Mat_default = [] \<and>
   \<not> 5 < Min ((\<lambda>(e, l). example_dist (example_enc example_frame Mat_default) e)
              ` set (trainingSet example_detector)) \<and>
   detectMarkerInImage example_enc example_dist 5 3 example_detector example_frame Mat_default
     = majority (map snd [(10, ''a''), (11, ''a''), (12, ''b'')]) \<and>
   detectMarkerInImage example_enc example_dist 5 3 example_detector example_frame Mat_default
     = ''a''"
proof -
  note untrained = detectMarkerInImage_result [of untrained_detector example_enc example_dist 5 3
      example_frame Mat_default]
  note far = detectMarkerInImage_result [of example_detector example_enc example_dist 5 3
      far_frame Mat_default]
  note near = detectMarkerInImage_result [of example_detector example_enc example_dist 5 3
      example_frame Mat_default]
  have ne: "trainingSet example_detector \<noteq> []"
    by (simp add: example_trainingSet)
  have a: "detectMarkerInImage example_enc example_dist 5 3 untrained_detector example_frame
      Mat_default = []"
    using untrained example_trainingSet(2) by blast
  have b: "detectMarkerInImage example_enc example_dist 5 3 example_detector far_frame
      Mat_default = []"
    using far ne by (simp add: example_nearest_distance)
  have c: "detectMarkerInImage example_enc example_dist 5 3 example_detector example_frame
      Mat_default = majority (map snd [(10, ''a''), (11, ''a''), (12, ''b'')])"
    using near ne by (simp add: example_nearest_distance example_kNearest)
  have d: "majority (map snd [(10 :: int, ''a''), (11, ''a''), (12, ''b'')]) = ''a''"
    by simp
  show ?thesis
    using a b c trans [OF c d] ne example_trainingSet(2)
    by (simp add: example_nearest_distance)
qed

end
